theory Spec2Isabelle
  imports Complex_Main
begin

section \<open>Python errors\<close>

text \<open>
  Every \<open>raise\<close>, failed \<open>assert\<close> and failing library call of the source is a value of
  \<open>py_error\<close>; a function that can fail returns \<open>py_error + 'a\<close> with \<open>Inl\<close> the error.
\<close>

datatype py_error =
    ValueError
  | ZeroDivisionError
  | OverflowError
  | AssertionError
  | RuntimeError
  | TypeError
  | IndexError
  | NotImplementedError

section \<open>Python ranges and rounding\<close>

text \<open>
  \<open>len(range(lo, hi, step))\<close> and \<open>range(lo, hi, step)\<close> of Python for a positive step.
\<close>

definition py_range_len :: "int \<Rightarrow> int \<Rightarrow> int \<Rightarrow> nat" where
  "py_range_len lo hi step = (if lo < hi then nat ((hi - lo - 1) div step + 1) else 0)"

definition py_range :: "int \<Rightarrow> int \<Rightarrow> int \<Rightarrow> int list" where
  "py_range lo hi step = map (\<lambda>k. lo + int k * step) [0..<py_range_len lo hi step]"

text \<open>
  Python 3 \<open>round(x)\<close> on a finite float \<open>x\<close>: the nearest integer, a tie going to the even
  one. A float is a real number, so the function is defined on the reals.
\<close>

definition py_round :: "real \<Rightarrow> int" where
  "py_round x =
     (let f = \<lfloor>x\<rfloor>; r = x - of_int f
      in if r < 1 / 2 then f
         else if 1 / 2 < r then f + 1
         else if even f then f else f + 1)"

section \<open>Binary floating point\<close>

text \<open>
  A Python \<open>float\<close> and an element of a \<open>torch.float64\<close> tensor are binary64 numbers; an
  element of a \<open>torch.float32\<close> tensor, the library's default, is a binary32 number. A format
  has \<open>prec\<close> significant bits and exponents from \<open>emin\<close> to \<open>emax\<close>.
\<close>

datatype dtype = Float32 | Float64

fun prec :: "dtype \<Rightarrow> nat" where
  "prec Float32 = 24"
| "prec Float64 = 53"

fun emin :: "dtype \<Rightarrow> int" where
  "emin Float32 = - 126"
| "emin Float64 = - 1022"

fun emax :: "dtype \<Rightarrow> int" where
  "emax Float32 = 127"
| "emax Float64 = 1023"

text \<open>\<open>2\<close> to an integer power.\<close>

definition pow2 :: "int \<Rightarrow> real" where
  "pow2 e = (if 0 \<le> e then 2 ^ nat e else 1 / 2 ^ nat (- e))"

text \<open>
  The result of an arithmetic operation is its exact result rounded to the nearest number
  of the format, a tie going to the even significand. \<open>fl d x\<close> is that rounding of the real
  number \<open>x\<close>: a multiple of the spacing \<open>q\<close> of the format at the magnitude of \<open>x\<close>, which
  below \<open>2\<^bsup>emin\<^esup>\<close> (the subnormal numbers) stays that of \<open>2\<^bsup>emin\<^esup>\<close>.
\<close>

definition fl :: "dtype \<Rightarrow> real \<Rightarrow> real" where
  "fl d x =
     (if x = 0 then 0
      else let e = max (emin d) \<lfloor>log 2 \<bar>x\<bar>\<rfloor>; q = pow2 (e - int (prec d) + 1)
           in of_int (py_round (x / q)) * q)"

text \<open>
  A rounded result of magnitude \<open>2\<^bsup>emax + 1\<^esup>\<close> or more is not a number of the format: the
  operation overflows. \<open>fl_finite d x\<close> is the rounding of \<open>x\<close> when it is finite.
\<close>

definition fl_finite :: "dtype \<Rightarrow> real \<Rightarrow> real option" where
  "fl_finite d x = (let r = fl d x in if \<bar>r\<bar> < pow2 (emax d + 1) then Some r else None)"

text \<open>
  Python's \<open>a / b\<close> on two integers: the quotient correctly rounded to a float;
  \<open>OverflowError\<close> when that is too large for a float.
\<close>

definition py_truediv :: "int \<Rightarrow> int \<Rightarrow> py_error + real" where
  "py_truediv a b =
     (if b = 0 then Inl ZeroDivisionError
      else case fl_finite Float64 (real_of_int a / real_of_int b) of
             None \<Rightarrow> Inl OverflowError
           | Some r \<Rightarrow> Inr r)"

section \<open>Schedule respacing: \<open>space_timesteps\<close>\<close>

text \<open>
  The argument \<open>section_counts\<close> after the source has parsed it: a string \<open>"ddimN"\<close> is
  \<open>Ddim N\<close> (the source's \<open>int(section_counts[len("ddim"):])\<close> already applied), a list of
  numbers or a comma-separated string is \<open>Counts\<close> of the numbers.
\<close>

datatype section_spec = Ddim int | Counts "int list"

text \<open>
  The fixed-stride search \<open>for i in range(1, num_timesteps)\<close>: the first stride whose range
  has the desired length is returned as a set; running off the end of the loop raises.
\<close>

fun ddim_loop :: "int \<Rightarrow> int \<Rightarrow> int list \<Rightarrow> py_error + int set" where
  "ddim_loop num_timesteps desired_count [] = Inl ValueError"
| "ddim_loop num_timesteps desired_count (i # rest) =
     (if int (length (py_range 0 num_timesteps i)) = desired_count
      then Inr (set (py_range 0 num_timesteps i))
      else ddim_loop num_timesteps desired_count rest)"

text \<open>
  The inner loop \<open>for _ in range(section_count)\<close>: each turn appends
  \<open>start_idx + round(cur_idx)\<close> and advances \<open>cur_idx\<close> by \<open>frac_stride\<close>, a float addition.
  \<open>cur_idx\<close> is \<open>None\<close> once the addition has overflowed to infinity, and \<open>round\<close> of an
  infinity raises \<open>OverflowError\<close>.
\<close>

fun take_steps :: "int \<Rightarrow> real \<Rightarrow> real option \<Rightarrow> nat \<Rightarrow> py_error + int list" where
  "take_steps start_idx frac_stride cur_idx 0 = Inr []"
| "take_steps start_idx frac_stride None (Suc k) = Inl OverflowError"
| "take_steps start_idx frac_stride (Some cur) (Suc k) =
     (case take_steps start_idx frac_stride (fl_finite Float64 (cur + frac_stride)) k of
        Inl e \<Rightarrow> Inl e
      | Inr rest \<Rightarrow> Inr ((start_idx + py_round cur) # rest))"

text \<open>
  The outer loop \<open>for i, section_count in enumerate(section_counts)\<close> with its state
  \<open>i\<close>, \<open>start_idx\<close> and \<open>all_steps\<close>.
\<close>

fun sections_loop ::
  "int \<Rightarrow> int \<Rightarrow> nat \<Rightarrow> int \<Rightarrow> int list \<Rightarrow> int list \<Rightarrow> py_error + int list" where
  "sections_loop size_per extra i start_idx all_steps [] = Inr all_steps"
| "sections_loop size_per extra i start_idx all_steps (section_count # rest) =
     (let size = size_per + (if int i < extra then 1 else 0)
      in if size < section_count then Inl ValueError
         else
           case (if section_count \<le> 1 then Inr 1
                 else py_truediv (size - 1) (section_count - 1)) of
             Inl e \<Rightarrow> Inl e
           | Inr frac_stride \<Rightarrow>
               (case take_steps start_idx frac_stride (Some 0) (nat section_count) of
                  Inl e \<Rightarrow> Inl e
                | Inr taken_steps \<Rightarrow>
                    sections_loop size_per extra (Suc i) (start_idx + size)
                      (all_steps @ taken_steps) rest))"

definition space_timesteps :: "int \<Rightarrow> section_spec \<Rightarrow> py_error + int set" where
  "space_timesteps num_timesteps section_counts =
     (case section_counts of
        Ddim desired_count \<Rightarrow> ddim_loop num_timesteps desired_count [1..num_timesteps - 1]
      | Counts cs \<Rightarrow>
          if cs = [] then Inl ZeroDivisionError
          else
            (case sections_loop (num_timesteps div int (length cs))
                    (num_timesteps mod int (length cs)) 0 0 [] cs of
               Inl e \<Rightarrow> Inl e
             | Inr all_steps \<Rightarrow> Inr (set all_steps)))"


section \<open>The derived schedule: \<open>SpacedDiffusion.__init__\<close>\<close>

text \<open>
  The schedule arithmetic is NumPy's on \<open>float64\<close>. The model computes on exact reals, and
  a value of type \<open>real option\<close> is a float that may be non-finite: \<open>None\<close> stands for
  \<open>inf\<close>, \<open>-inf\<close> or \<open>nan\<close>. NumPy division by zero raises nothing; it gives such a value
  (with a warning), and every later sum or product with it is non-finite again.
\<close>

definition np_div :: "real \<Rightarrow> real \<Rightarrow> real option" where
  "np_div a b = (if b = 0 then None else Some (a / b))"

definition np_rsub :: "real \<Rightarrow> real option \<Rightarrow> real option" where
  "np_rsub c x = map_option (\<lambda>v. c - v) x"

definition np_mul :: "real option \<Rightarrow> real option \<Rightarrow> real option" where
  "np_mul x y = (case x of None \<Rightarrow> None | Some a \<Rightarrow> map_option (\<lambda>b. a * b) y)"

text \<open>
  The three variables the constructor's loop updates. \<open>timestep_map\<close> is the attribute
  \<open>self.timestep_map\<close>; \<open>new_betas\<close> becomes the \<open>betas\<close> handed to the base constructor.
\<close>

record spaced_state =
  last_alpha_cumprod :: real
  new_betas :: "real option list"
  timestep_map :: "nat list"

text \<open>
  \<open>for i, alpha_cumprod in enumerate(base_diffusion.alphas_cumprod)\<close>, over the list of
  pairs that \<open>enumerate\<close> gives. \<open>use_timesteps\<close> is a Python set of integers.
\<close>

fun spaced_loop :: "int set \<Rightarrow> (nat \<times> real) list \<Rightarrow> spaced_state \<Rightarrow> spaced_state" where
  "spaced_loop use_timesteps [] st = st"
| "spaced_loop use_timesteps ((i, alpha_cumprod) # rest) st =
     (if int i \<in> use_timesteps
      then spaced_loop use_timesteps rest
             \<lparr> last_alpha_cumprod = alpha_cumprod,
               new_betas = new_betas st @ [np_rsub 1 (np_div alpha_cumprod (last_alpha_cumprod st))],
               timestep_map = timestep_map st @ [i] \<rparr>
      else spaced_loop use_timesteps rest st)"

text \<open>
  The constructor up to the call of the base constructor. The base process
  (\<open>GaussianDiffusion\<close>) is not part of the sources at hand; its \<open>alphas_cumprod\<close> for the
  original \<open>betas\<close> is the parameter \<open>alphas_cumprod\<close>.
\<close>

definition spaced_init :: "int set \<Rightarrow> real list \<Rightarrow> spaced_state" where
  "spaced_init use_timesteps alphas_cumprod =
     spaced_loop use_timesteps (enumerate 0 alphas_cumprod)
       \<lparr> last_alpha_cumprod = 1, new_betas = [], timestep_map = [] \<rparr>"

text \<open>
  Modelled from the spec: the base diffusion process, which is missing from the sources,
  ``exposes a cumulative signal-retention sequence aligned with'' the increments it is
  constructed from; the round-trip property reads it as the running product of
  \<open>1 - increment\<close>.
\<close>

fun cumprod_from :: "real option \<Rightarrow> real option list \<Rightarrow> real option list" where
  "cumprod_from p [] = []"
| "cumprod_from p (x # xs) = np_mul p x # cumprod_from (np_mul p x) xs"

definition derived_alphas_cumprod :: "real option list \<Rightarrow> real option list" where
  "derived_alphas_cumprod betas = cumprod_from (Some 1) (map (np_rsub 1) betas)"

text \<open>
  The increments the loop appends for a run of retained values \<open>as\<close>, when the last retained
  value before them is \<open>l\<close>.
\<close>

fun betas_from :: "real \<Rightarrow> real list \<Rightarrow> real option list" where
  "betas_from l [] = []"
| "betas_from l (a # as) = np_rsub 1 (np_div a l) # betas_from a as"

section \<open>Tensors\<close>

text \<open>
  A tensor is its shape and its elements in row-major order. An element is a real number;
  the operations of this section are exact, and an operation that rounds its result to a
  floating-point format says so (\<open>fl\<close>). A tensor of the library always holds as many
  elements as its shape says (\<open>wf_tensor\<close>).
\<close>

record tensor =
  shape :: "nat list"
  vals :: "real list"

definition wf_tensor :: "tensor \<Rightarrow> bool" where
  "wf_tensor t = (length (vals t) = prod_list (shape t))"

definition unsqueeze0 :: "tensor \<Rightarrow> tensor" where
  "unsqueeze0 t = t\<lparr> shape := 1 # shape t \<rparr>"

text \<open>
  Broadcasting as the tensor library defines it: shapes are aligned at their last dimension;
  two sizes are compatible when they are equal or one of them is 1; a missing leading
  dimension counts as 1. \<open>broadcast_rev\<close> works on the reversed shapes.
\<close>

fun broadcast_rev :: "nat list \<Rightarrow> nat list \<Rightarrow> nat list option" where
  "broadcast_rev [] ys = Some ys"
| "broadcast_rev (x # xs) [] = Some (x # xs)"
| "broadcast_rev (x # xs) (y # ys) =
     (if x = y \<or> y = 1 then map_option ((#) x) (broadcast_rev xs ys)
      else if x = 1 then map_option ((#) y) (broadcast_rev xs ys)
      else None)"

definition broadcast_shapes :: "nat list \<Rightarrow> nat list \<Rightarrow> nat list option" where
  "broadcast_shapes a b = map_option rev (broadcast_rev (rev a) (rev b))"

text \<open>
  The position in a tensor of reversed shape \<open>ss\<close> that the element at row-major position
  \<open>k\<close> of its expansion to the reversed shape \<open>ts\<close> is read from: along a dimension of size 1
  the index is 0, along any other it is the index of the expanded tensor.
\<close>

fun src_index :: "nat list \<Rightarrow> nat list \<Rightarrow> nat \<Rightarrow> nat" where
  "src_index ts [] k = 0"
| "src_index [] (s # ss) k = 0"
| "src_index (t # ts) (s # ss) k =
     (if s = 1 then 0 else k mod t) + s * src_index ts ss (k div t)"

definition expand :: "nat list \<Rightarrow> tensor \<Rightarrow> real list" where
  "expand ts t = map (\<lambda>k. vals t ! src_index (rev ts) (rev (shape t)) k) [0..<prod_list ts]"

text \<open>
  An elementwise binary operation of the library on two tensors: both are expanded to the
  broadcast shape; shapes that do not broadcast are a \<open>RuntimeError\<close>.
\<close>

definition tbinop :: "(real \<Rightarrow> real \<Rightarrow> real) \<Rightarrow> tensor \<Rightarrow> tensor \<Rightarrow> py_error + tensor" where
  "tbinop f a b =
     (case broadcast_shapes (shape a) (shape b) of
        None \<Rightarrow> Inl RuntimeError
      | Some s \<Rightarrow> Inr \<lparr> shape = s, vals = map2 f (expand s a) (expand s b) \<rparr>)"


definition tsub :: "tensor \<Rightarrow> tensor \<Rightarrow> py_error + tensor" where
  "tsub = tbinop (-)"


text \<open>Elementwise functions of one tensor, and the product of a number and a tensor.\<close>

definition tmap :: "(real \<Rightarrow> real) \<Rightarrow> tensor \<Rightarrow> tensor" where
  "tmap f t = t\<lparr> vals := map f (vals t) \<rparr>"

definition smul :: "real \<Rightarrow> tensor \<Rightarrow> tensor" where
  "smul c t = tmap (\<lambda>v. c * v) t"

text \<open>\<open>th.linalg.norm\<close> of a tensor with no further argument: the 2-norm of its elements.\<close>

definition tnorm :: "tensor \<Rightarrow> real" where
  "tnorm t = sqrt (sum_list (map (\<lambda>v. v * v) (vals t)))"

text \<open>Sequencing of computations that may raise.\<close>

definition bind_err :: "py_error + 'a \<Rightarrow> ('a \<Rightarrow> py_error + 'b) \<Rightarrow> py_error + 'b" where
  "bind_err m f = (case m of Inl e \<Rightarrow> Inl e | Inr v \<Rightarrow> f v)"

section \<open>Measurement losses\<close>

text \<open>
  \<open>th.nn.MSELoss(reduction="sum")\<close> is the tensor library's. It is modelled as the library
  defines it: input and target of different sizes are reported by a warning only, both are
  broadcast against each other, and the squared differences are summed; sizes that do not
  broadcast are a \<open>RuntimeError\<close>.
\<close>

definition MSELoss_sum :: "tensor \<Rightarrow> tensor \<Rightarrow> py_error + real" where
  "MSELoss_sum x y =
     (case broadcast_shapes (shape x) (shape y) of
        None \<Rightarrow> Inl RuntimeError
      | Some s \<Rightarrow> Inr (sum_list (map2 (\<lambda>a b. (a - b) * (a - b)) (expand s x) (expand s y))))"

text \<open>
  \<open>PoissonMseLoss.forward\<close>. After the assertion both tensors have one shape, so the
  products and the difference are elementwise.
\<close>

definition PoissonMseLoss_forward :: "tensor \<Rightarrow> tensor \<Rightarrow> py_error + real" where
  "PoissonMseLoss_forward x y =
     (if shape x \<noteq> shape y then Inl AssertionError
      else
        let weights = map (\<lambda>v. 1 / (2 * max \<bar>v\<bar> (1 / 100))) (vals y);
            diff = map2 (\<lambda>a b. a - b) (vals x) (vals y)
        in Inr (sum_list (map2 (\<lambda>w d. w * d * d) weights diff)))"

text \<open>The loss object a sampler holds in \<open>self.measurement_loss\<close>.\<close>

datatype loss_fn = MSELoss | PoissonMseLoss

fun apply_loss :: "loss_fn \<Rightarrow> tensor \<Rightarrow> tensor \<Rightarrow> py_error + real" where
  "apply_loss MSELoss x y = MSELoss_sum x y"
| "apply_loss PoissonMseLoss x y = PoissonMseLoss_forward x y"

section \<open>Sampler construction\<close>

text \<open>
  The fields of a sampler that the posterior gradient step reads. The measurement operator
  is an external collaborator and may raise. \<open>measurement_loss\<close> is set by the constructor
  from the noise-model name.
\<close>

record dps_self =
  measurement_model :: "tensor \<Rightarrow> py_error + tensor"
  measurement :: tensor
  noise_model :: string
  step_size :: real
  measurement_loss :: loss_fn

text \<open>
  What running \<open>__init__\<close> on a fresh object ends in when it does not raise: the body ran to
  its end (and returned \<open>None\<close>) leaving the initialised object, or it executed a \<open>return\<close> of
  a value other than \<open>None\<close>.
\<close>

datatype 'a init_result = Initialised 'a | Returned_not_None

text \<open>
  A class call \<open>C(...)\<close> of Python: an exception of \<open>__init__\<close> propagates, an \<open>__init__\<close>
  that returns a value other than \<open>None\<close> makes the call raise \<open>TypeError\<close>, and otherwise
  the call evaluates to the initialised object.
\<close>

definition py_construct :: "py_error + 'a init_result \<Rightarrow> py_error + 'a" where
  "py_construct r =
     (case r of
        Inl e \<Rightarrow> Inl e
      | Inr Returned_not_None \<Rightarrow> Inl TypeError
      | Inr (Initialised obj) \<Rightarrow> Inr obj)"

text \<open>
  \<open>DiffusionPosteriorSampling.__init__\<close>. \<open>super_init\<close> is the outcome of
  \<open>super().__init__(use_timesteps, **kwargs)\<close>, whose base class is not part of the sources
  at hand. Moving the measurement to a device does not change its value. The last branch
  prints a message and executes \<open>return NotImplementedError\<close>.
\<close>

definition DiffusionPosteriorSampling_init ::
  "py_error + unit \<Rightarrow> (tensor \<Rightarrow> py_error + tensor) \<Rightarrow> tensor \<Rightarrow> string \<Rightarrow> real \<Rightarrow>
   py_error + dps_self init_result" where
  "DiffusionPosteriorSampling_init super_init measurement_model' measurement' noise_model'
     step_size' =
     bind_err super_init (\<lambda>_.
       if noise_model' = ''gaussian'' then
         Inr (Initialised \<lparr> measurement_model = measurement_model', measurement = measurement',
           noise_model = noise_model', step_size = step_size', measurement_loss = MSELoss \<rparr>)
       else if noise_model' = ''poisson'' then
         Inr (Initialised \<lparr> measurement_model = measurement_model', measurement = measurement',
           noise_model = noise_model', step_size = step_size',
           measurement_loss = PoissonMseLoss \<rparr>)
       else Inr Returned_not_None)"

definition DiffusionPosteriorSampling ::
  "py_error + unit \<Rightarrow> (tensor \<Rightarrow> py_error + tensor) \<Rightarrow> tensor \<Rightarrow> string \<Rightarrow> real \<Rightarrow>
   py_error + dps_self" where
  "DiffusionPosteriorSampling super_init measurement_model' measurement' noise_model' step_size' =
     py_construct (DiffusionPosteriorSampling_init super_init measurement_model' measurement'
       noise_model' step_size')"

text \<open>
  \<open>DPMDiffusionPosteriorSampling.__init__\<close>, likewise; \<open>super_init\<close> is the outcome of the
  external solver's constructor. The fields \<open>gaussian_diffusion\<close> and \<open>ddpm_model\<close> are
  external collaborators that the multistep update calls; they are parameters there. The last
  branch raises.
\<close>

definition DPMDiffusionPosteriorSampling_init ::
  "py_error + unit \<Rightarrow> (tensor \<Rightarrow> py_error + tensor) \<Rightarrow> tensor \<Rightarrow> string \<Rightarrow> real \<Rightarrow>
   py_error + dps_self init_result" where
  "DPMDiffusionPosteriorSampling_init super_init measurement_model' measurement' noise_model'
     step_size' =
     bind_err super_init (\<lambda>_.
       if noise_model' = ''gaussian'' then
         Inr (Initialised \<lparr> measurement_model = measurement_model', measurement = measurement',
           noise_model = noise_model', step_size = step_size', measurement_loss = MSELoss \<rparr>)
       else if noise_model' = ''poisson'' then
         Inr (Initialised \<lparr> measurement_model = measurement_model', measurement = measurement',
           noise_model = noise_model', step_size = step_size',
           measurement_loss = PoissonMseLoss \<rparr>)
       else Inl NotImplementedError)"

definition DPMDiffusionPosteriorSampling ::
  "py_error + unit \<Rightarrow> (tensor \<Rightarrow> py_error + tensor) \<Rightarrow> tensor \<Rightarrow> string \<Rightarrow> real \<Rightarrow>
   py_error + dps_self" where
  "DPMDiffusionPosteriorSampling super_init measurement_model' measurement' noise_model'
     step_size' =
     py_construct (DPMDiffusionPosteriorSampling_init super_init measurement_model' measurement'
       noise_model' step_size')"

section \<open>The model timestep adapter\<close>

text \<open>
  A batch of timesteps as the model receives it: a one-dimensional tensor of integer or of
  floating-point type.
\<close>

datatype timesteps = IntTs "int list" | FloatTs "real list"

text \<open>
  A model is any callable taking a sample and a batch of timesteps, or an instance of
  \<open>_WrappedModel\<close> with its four attributes \<open>model\<close>, \<open>timestep_map\<close>, \<open>rescale_timesteps\<close> and
  \<open>original_num_steps\<close>.
\<close>

datatype ('x, 'y) model =
    Callable "'x \<Rightarrow> timesteps \<Rightarrow> py_error + 'y"
  | WrappedModel "('x, 'y) model" "nat list" bool nat

text \<open>
  Indexing a one-dimensional tensor \<open>map_tensor\<close> by an integer tensor: an index below zero
  counts from the end, an index outside either range is an \<open>IndexError\<close>.
\<close>

fun index_tensor :: "nat list \<Rightarrow> int list \<Rightarrow> py_error + nat list" where
  "index_tensor map_tensor [] = Inr []"
| "index_tensor map_tensor (i # rest) =
     (let n = int (length map_tensor);
          j = (if i < 0 then n + i else i)
      in if 0 \<le> j \<and> j < n
         then bind_err (index_tensor map_tensor rest) (\<lambda>r. Inr (map_tensor ! nat j # r))
         else Inl IndexError)"

text \<open>
  Calling a model; for a wrapped one this is \<open>_WrappedModel.__call__\<close>. The map tensor takes
  the type of \<open>ts\<close>, and a floating-point tensor is not accepted as an index. The factor
  \<open>1000.0 / self.original_num_steps\<close> is Python's division, which raises on zero.
\<close>

fun call_model :: "('x, 'y) model \<Rightarrow> 'x \<Rightarrow> timesteps \<Rightarrow> py_error + 'y" where
  "call_model (Callable f) x ts = f x ts"
| "call_model (WrappedModel m timestep_map' rescale_timesteps' original_num_steps') x ts =
     (case ts of
        FloatTs _ \<Rightarrow> Inl IndexError
      | IntTs is \<Rightarrow>
          bind_err (index_tensor timestep_map' is) (\<lambda>new_ts.
            if rescale_timesteps' then
              (if original_num_steps' = 0 then Inl ZeroDivisionError
               else call_model m x
                      (FloatTs (map (\<lambda>v. real v * (1000 / real original_num_steps')) new_ts)))
            else call_model m x (IntTs (map int new_ts))))"

text \<open>The attributes of a \<open>SpacedDiffusion\<close> that \<open>_wrap_model\<close> reads.\<close>

record spaced_self =
  sp_timestep_map :: "nat list"
  sp_rescale_timesteps :: bool
  sp_original_num_steps :: nat

definition wrap_model :: "spaced_self \<Rightarrow> ('x, 'y) model \<Rightarrow> ('x, 'y) model" where
  "wrap_model self m =
     (case m of
        WrappedModel _ _ _ _ \<Rightarrow> m
      | Callable _ \<Rightarrow>
          WrappedModel m (sp_timestep_map self) (sp_rescale_timesteps self)
            (sp_original_num_steps self))"

section \<open>The posterior gradient step\<close>

text \<open>\<open>if len(t.shape) != 4: t = t.unsqueeze(0)\<close>.\<close>

definition to_4d :: "tensor \<Rightarrow> tensor" where
  "to_4d t = (if length (shape t) \<noteq> 4 then unsqueeze0 t else t)"

text \<open>
  \<open>DiffusionPosteriorSampling.dps_update\<close>. The gradient \<open>th.autograd.grad(loss, x)[0]\<close> is
  taken through the denoiser, which the embedding does not have: its value is the argument
  \<open>grad\<close>, which stands in for the source's \<open>x\<close> (\<open>t\<close> is not used by the source). The
  conditional expression evaluates its condition first, so the norm is computed only for a
  positive loss; it is the norm of the difference to \<open>self.measurement\<close> as stored, not to
  the four-dimensional one. Detaching the result does not change its value.
\<close>

definition dps_update :: "'a dps_self_scheme \<Rightarrow> tensor \<Rightarrow> tensor \<Rightarrow> tensor \<Rightarrow> py_error + tensor" where
  "dps_update self grad x0 x_old =
     (let measurement' = to_4d (measurement self)
      in bind_err (measurement_model self x0) (\<lambda>y_pred0.
           let y_pred = to_4d y_pred0
           in bind_err (apply_loss (measurement_loss self) y_pred measurement') (\<lambda>loss.
                bind_err
                  (if 0 < loss
                   then bind_err (tsub y_pred (measurement self))
                          (\<lambda>d. Inr (step_size self / tnorm (tmap abs d)))
                   else Inr (step_size self))
                  (\<lambda>zeta_i. tsub x_old (smul zeta_i grad)))))"

section \<open>The multistep-solver sampler\<close>


text \<open>
  The sampler with its external collaborators: the denoiser \<open>ddpm_model\<close>, the base process's
  inversion formula \<open>_predict_xstart_from_eps\<close>, and the solver's three update formulas. Each
  may raise. A time is a number; a list of earlier model outputs is a list of tensors.
\<close>

record dpm_self = dps_self +
  ddpm_model :: "tensor \<Rightarrow> int \<Rightarrow> py_error + tensor"
  predict_xstart_from_eps :: "tensor \<Rightarrow> int \<Rightarrow> tensor \<Rightarrow> py_error + tensor"
  dpm_solver_first_update :: "tensor \<Rightarrow> real \<Rightarrow> real \<Rightarrow> tensor \<Rightarrow> py_error + tensor"
  multistep_dpm_solver_second_update ::
    "tensor \<Rightarrow> tensor list \<Rightarrow> real list \<Rightarrow> real \<Rightarrow> string \<Rightarrow> py_error + tensor"
  multistep_dpm_solver_third_update ::
    "tensor \<Rightarrow> tensor list \<Rightarrow> real list \<Rightarrow> real \<Rightarrow> string \<Rightarrow> py_error + tensor"













section \<open>The ancestral sampler\<close>

text \<open>
  What the base process's \<open>p_mean_variance\<close> returns, as far as \<open>p_sample\<close> reads it: the
  entries \<open>"mean"\<close>, \<open>"log_variance"\<close> and \<open>"pred_xstart"\<close>.
\<close>

record pmv_out =
  pmv_mean :: tensor
  pmv_log_variance :: tensor
  pmv_pred_xstart :: tensor


text \<open>
  The ancestral sampler: the fields of the gradient step, the length of its (spaced)
  schedule, and \<open>p_mean_variance\<close>, which belongs to the base process that is not part of
  the sources at hand; it is a parameter and may raise.
\<close>

record 'm ancestral_self = dps_self +
  num_timesteps :: nat
  p_mean_variance :: "'m \<Rightarrow> tensor \<Rightarrow> int list \<Rightarrow> py_error + pmv_out"









section \<open>Measurement operators and the storage of tensors\<close>

text \<open>
  Whether a call changes the caller's tensor depends on which tensor objects share their
  elements, so here the elements live in a store: an address holds the elements of one
  storage in row-major order, and a tensor object is an address together with a shape.
  \<open>unsqueeze(0)\<close>, \<open>squeeze(0)\<close> and slicing give a tensor object on the same storage.

  The library refuses an in-place operation, while gradients are being recorded, on a leaf
  tensor that requires a gradient and on every view of one. \<open>grad_leaf\<close> says that the
  tensor object is such a leaf or a view of one; a view of the object is one as well.
\<close>

type_synonym addr = nat

type_synonym store = "addr \<Rightarrow> real list"

record tref =
  storage :: addr
  ref_shape :: "nat list"
  grad_leaf :: bool

text \<open>
  The attributes of a \<open>BoxInpainting\<close> operator. Before the first call \<open>box_values\<close> is false
  and the four numbers are unset (\<open>None\<close> in the source); they are read only after \<open>box\<close> has
  set them.
\<close>

record box_self =
  x1 :: nat
  x2 :: nat
  box_h :: nat
  box_w :: nat
  box_values :: bool

text \<open>
  \<open>BoxInpainting.box\<close>. The two random draws \<open>torch.randint(0, bound, (1,)).item()\<close> are
  some numbers below their bounds: \<open>r1 mod bound\<close> and \<open>r2 mod bound\<close> for arbitrary \<open>r1\<close>, \<open>r2\<close>.
  Unpacking a shape that does not have four entries raises.
\<close>

definition box :: "box_self \<Rightarrow> nat list \<Rightarrow> nat \<Rightarrow> nat \<Rightarrow> py_error + box_self" where
  "box self x_shape r1 r2 =
     (if box_values self then Inr self
      else
        (case x_shape of
           [_, _, h, w] \<Rightarrow>
             let max_x = (if 128 \<le> h then h - 128 else 0);
                 max_y = (if 128 \<le> w then w - 128 else 0)
             in Inr \<lparr> x1 = r1 mod max 1 max_x, x2 = r2 mod max 1 max_y,
                      box_h = min 128 h, box_w = min 128 w, box_values = True \<rparr>
         | _ \<Rightarrow> Inl ValueError))"

text \<open>The number of indices a slice \<open>lo:hi\<close> selects along a dimension of size \<open>n\<close>.\<close>

definition slice_len :: "nat \<Rightarrow> nat \<Rightarrow> nat \<Rightarrow> nat" where
  "slice_len lo hi n = min hi n - min lo n"

text \<open>
  Whether the element at row-major position \<open>k\<close> of a tensor of shape \<open>sh\<close> (of four or more
  dimensions) lies in the slice \<open>[:, :, a:a + bh, c:c + bw]\<close>.
\<close>

definition in_box :: "nat list \<Rightarrow> nat \<Rightarrow> nat \<Rightarrow> nat \<Rightarrow> nat \<Rightarrow> nat \<Rightarrow> bool" where
  "in_box sh a bh c bw k =
     (let i = (k div prod_list (drop 3 sh)) mod (sh ! 2);
          j = (k div prod_list (drop 4 sh)) mod (sh ! 3)
      in a \<le> i \<and> i < a + bh \<and> c \<le> j \<and> j < c + bw)"

text \<open>
  \<open>BoxInpainting.__call__\<close>, returning the operator after the call and either the exception
  or the returned tensor object and the store. \<open>grad_enabled\<close> is the library's gradient
  mode at the call. The mask is all \<open>False\<close>, so the in-place product
  \<open>tensor[:, :, x1:x1+box_h, x2:x2+box_w] *= mask\<close> multiplies each element of the slice by 0.
  The product raises \<open>RuntimeError\<close>, and nothing is written, when the slice is a view of a
  leaf tensor that requires a gradient while gradients are recorded, and when the mask does
  not broadcast to the very shape of the slice.
\<close>

definition BoxInpainting_call ::
  "box_self \<Rightarrow> bool \<Rightarrow> store \<Rightarrow> tref \<Rightarrow> nat \<Rightarrow> nat \<Rightarrow> box_self \<times> (py_error + tref \<times> store)" where
  "BoxInpainting_call self grad_enabled st tensor' r1 r2 =
     (let t = (if length (ref_shape tensor') = 3
               then tensor'\<lparr> ref_shape := 1 # ref_shape tensor' \<rparr> else tensor');
          sh = ref_shape t
      in case box self sh r1 r2 of
           Inl e \<Rightarrow> (self, Inl e)
         | Inr self' \<Rightarrow>
             if length sh < 2 then (self', Inl ValueError)
             else if length sh < 4 then (self', Inl IndexError)
             else
               let slice_shape =
                     [sh ! 0, sh ! 1,
                      slice_len (x1 self') (x1 self' + box_h self') (sh ! 2),
                      slice_len (x2 self') (x2 self' + box_w self') (sh ! 3)] @ drop 4 sh;
                   mask_shape = [sh ! 0, sh ! 1, 128, 128]
               in if (grad_enabled \<and> grad_leaf t)
                    \<or> broadcast_shapes slice_shape mask_shape \<noteq> Some slice_shape
                  then (self', Inl RuntimeError)
                  else
                    let old = st (storage t);
                        new = map (\<lambda>k. if in_box sh (x1 self') (box_h self') (x2 self')
                                             (box_w self') k
                                        then old ! k * 0 else old ! k) [0..<length old]
                    in (self',
                        Inr (if length sh = 4 \<and> sh ! 0 = 1 then t\<lparr> ref_shape := tl sh \<rparr> else t,
                             st(storage t := new))))"

section \<open>Properties\<close>


subsection \<open>Rounding to a floating-point format\<close>

lemma pow2_powr: "pow2 e = 2 powr (of_int e)"
  by (simp add: pow2_def powr_real_of_int field_simps)

lemma pow2_pos: "0 < pow2 e"
  by (simp add: pow2_powr)


lemma pow2_mono: "a \<le> b \<Longrightarrow> pow2 a \<le> pow2 b"
  by (simp add: pow2_powr)


lemma floor_log2:
  assumes "pow2 e \<le> \<bar>x\<bar>" "\<bar>x\<bar> < pow2 (e + 1)"
  shows "\<lfloor>log 2 \<bar>x\<bar>\<rfloor> = e"
proof -
  have pos: "0 < \<bar>x\<bar>" using assms(1) pow2_pos [of e] by linarith
  have "of_int e \<le> log 2 \<bar>x\<bar>"
    using assms(1) pos by (simp add: le_log_iff pow2_powr)
  moreover have "log 2 \<bar>x\<bar> < of_int e + 1"
    using assms(2) pos by (simp add: log_less_iff pow2_powr)
  ultimately show ?thesis by (intro floor_unique) simp_all
qed


lemma fl_at:
  assumes "pow2 e \<le> \<bar>x\<bar>" "\<bar>x\<bar> < pow2 (e + 1)" "emin d \<le> e"
  shows "fl d x = of_int (py_round (x / pow2 (e - int (prec d) + 1))) * pow2 (e - int (prec d) + 1)"
proof -
  have "x \<noteq> 0" using assms(1) pow2_pos [of e] by auto
  then show ?thesis
    using floor_log2 [OF assms(1,2)] assms(3) by (simp add: fl_def Let_def max_def)
qed







text \<open>The rounding of a number whose exponent \<open>e\<close> is known.\<close>

lemma fl_eval:
  assumes "pow2 e \<le> \<bar>x\<bar>" "\<bar>x\<bar> < pow2 (e + 1)" "emin d \<le> e"
    and "py_round (x / pow2 (e - int (prec d) + 1)) = m"
  shows "fl d x = of_int m * pow2 (e - int (prec d) + 1)"
  using fl_at [OF assms(1-3)] assms(4) by simp

subsection \<open>Fixed-stride mode\<close>

lemma ddim_loop_none:
  "(\<And>i. i \<in> set xs \<Longrightarrow> int (length (py_range 0 n i)) \<noteq> d) \<Longrightarrow>
   ddim_loop n d xs = Inl ValueError"
  by (induction xs) auto

lemma ddim_loop_first:
  "(\<And>i. i \<in> set pre \<Longrightarrow> int (length (py_range 0 n i)) \<noteq> d) \<Longrightarrow>
   int (length (py_range 0 n s)) = d \<Longrightarrow>
   ddim_loop n d (pre @ s # post) = Inr (set (py_range 0 n s))"
  by (induction pre) auto

text \<open>
  Claim C5. In fixed-stride mode with desired count \<open>d\<close>: when a stride \<open>s\<close> with
  \<open>1 \<le> s < num_timesteps\<close> gives \<open>len(range(0, num_timesteps, s)) = d\<close> and no smaller
  stride does, \<open>space_timesteps\<close> returns \<open>set(range(0, num_timesteps, s))\<close>; when no stride
  from \<open>1\<close> to \<open>num_timesteps - 1\<close> does, it raises \<open>ValueError\<close>.
\<close>

theorem space_timesteps_ddim:
  "(1 \<le> s \<and> s < n \<and> int (length (py_range 0 n s)) = d \<and>
      (\<forall>s'. 1 \<le> s' \<and> s' < s \<longrightarrow> int (length (py_range 0 n s')) \<noteq> d)
     \<longrightarrow> space_timesteps n (Ddim d) = Inr (set (py_range 0 n s))) \<and>
   ((\<forall>s'. 1 \<le> s' \<and> s' < n \<longrightarrow> int (length (py_range 0 n s')) \<noteq> d)
     \<longrightarrow> space_timesteps n (Ddim d) = Inl ValueError)"
proof (intro conjI impI)
  assume h: "1 \<le> s \<and> s < n \<and> int (length (py_range 0 n s)) = d \<and>
      (\<forall>s'. 1 \<le> s' \<and> s' < s \<longrightarrow> int (length (py_range 0 n s')) \<noteq> d)"
  then have split: "[1..n - 1] = [1..s - 1] @ s # [s + 1..n - 1]"
    using upto_split3 [of 1 s "n - 1"] by simp
  have "ddim_loop n d ([1..s - 1] @ s # [s + 1..n - 1]) = Inr (set (py_range 0 n s))"
    using h by (intro ddim_loop_first) auto
  then show "space_timesteps n (Ddim d) = Inr (set (py_range 0 n s))"
    by (simp add: space_timesteps_def split)
next
  assume "\<forall>s'. 1 \<le> s' \<and> s' < n \<longrightarrow> int (length (py_range 0 n s')) \<noteq> d"
  then have "ddim_loop n d [1..n - 1] = Inl ValueError"
    by (intro ddim_loop_none) auto
  then show "space_timesteps n (Ddim d) = Inl ValueError"
    by (simp add: space_timesteps_def)
qed

lemma py_range_0_10_2: "py_range 0 10 2 = [0, 2, 4, 6, 8]"
  by (simp add: py_range_def py_range_len_def upt_rec)

text \<open>
  With 10 timesteps, \<open>"ddim5"\<close> finds stride 2 (stride 1 gives 10 steps); with a single
  timestep no stride is tried and the call raises.
\<close>

theorem space_timesteps_ddim_witness:
  "space_timesteps 10 (Ddim 5) = Inr {0, 2, 4, 6, 8} \<and>
   space_timesteps 1 (Ddim 5) = Inl ValueError"
proof -
  have a: "\<forall>s'::int. 1 \<le> s' \<and> s' < 2 \<longrightarrow> int (length (py_range 0 10 s')) \<noteq> 5"
  proof (intro allI impI)
    fix s' :: int
    assume "1 \<le> s' \<and> s' < 2"
    then have "s' = 1" by simp
    then show "int (length (py_range 0 10 s')) \<noteq> 5"
      by (simp add: py_range_def py_range_len_def)
  qed
  have b: "int (length (py_range 0 10 2)) = 5"
    by (simp add: py_range_def py_range_len_def)
  have c: "\<forall>s'::int. 1 \<le> s' \<and> s' < 1 \<longrightarrow> int (length (py_range 0 1 s')) \<noteq> 5"
    by simp
  show ?thesis
    using space_timesteps_ddim [of 2 10 5] space_timesteps_ddim [of 0 1 5] a b c
    by (simp add: py_range_0_10_2)
qed

subsection \<open>Section mode\<close>
















subsection \<open>A schedule on which the float rounding shows\<close>

lemma fl_finite_eval: "fl Float64 x = r \<Longrightarrow> \<bar>r\<bar> < 2 ^ 27 \<Longrightarrow> fl_finite Float64 x = Some r"
proof -
  assume a: "fl Float64 x = r" "\<bar>r\<bar> < 2 ^ 27"
  have "pow2 27 \<le> pow2 (emax Float64 + 1)" by (intro pow2_mono) simp
  then have "\<bar>r\<bar> < pow2 (emax Float64 + 1)" using a(2) by (simp add: pow2_def)
  then show ?thesis unfolding fl_finite_def Let_def a(1) by simp
qed

lemma stride_16_15: "fl Float64 (15 / 14) = 4825285315039817 / 2 ^ 52"
  by (rule fl_eval [where e = 0 and m = 4825285315039817, THEN trans])
    (simp_all add: pow2_def py_round_def)

lemma cur_16_15_1: "fl Float64 (0 + 4825285315039817 / 2 ^ 52) = 4825285315039817 / 2 ^ 52"
  by (rule fl_eval [where e = 0 and m = 4825285315039817, THEN trans])
    (simp_all add: pow2_def py_round_def)

lemma cur_16_15_2: "fl Float64 (4825285315039817 / 2 ^ 52 + 4825285315039817 / 2 ^ 52) = 4825285315039817 / 2 ^ 51"
  by (rule fl_eval [where e = 1 and m = 4825285315039817, THEN trans])
    (simp_all add: pow2_def py_round_def)

lemma cur_16_15_3: "fl Float64 (4825285315039817 / 2 ^ 51 + 4825285315039817 / 2 ^ 52) = 3618963986279863 / 2 ^ 50"
  by (rule fl_eval [where e = 1 and m = 7237927972559726, THEN trans])
    (simp_all add: pow2_def py_round_def)

lemma cur_16_15_4: "fl Float64 (3618963986279863 / 2 ^ 50 + 4825285315039817 / 2 ^ 52) = 4825285315039817 / 2 ^ 50"
  by (rule fl_eval [where e = 2 and m = 4825285315039817, THEN trans])
    (simp_all add: pow2_def py_round_def)

lemma cur_16_15_5: "fl Float64 (4825285315039817 / 2 ^ 50 + 4825285315039817 / 2 ^ 52) = 6031606643799771 / 2 ^ 50"
  by (rule fl_eval [where e = 2 and m = 6031606643799771, THEN trans])
    (simp_all add: pow2_def py_round_def)

lemma cur_16_15_6: "fl Float64 (6031606643799771 / 2 ^ 50 + 4825285315039817 / 2 ^ 52) = 7237927972559725 / 2 ^ 50"
  by (rule fl_eval [where e = 2 and m = 7237927972559725, THEN trans])
    (simp_all add: pow2_def py_round_def)

lemma cur_16_15_7: "fl Float64 (7237927972559725 / 2 ^ 50 + 4825285315039817 / 2 ^ 52) = 8444249301319679 / 2 ^ 50"
  by (rule fl_eval [where e = 2 and m = 8444249301319679, THEN trans])
    (simp_all add: pow2_def py_round_def)

lemma cur_16_15_8: "fl Float64 (8444249301319679 / 2 ^ 50 + 4825285315039817 / 2 ^ 52) = 4825285315039817 / 2 ^ 49"
  by (rule fl_eval [where e = 3 and m = 4825285315039817, THEN trans])
    (simp_all add: pow2_def py_round_def)

lemma cur_16_15_9: "fl Float64 (4825285315039817 / 2 ^ 49 + 4825285315039817 / 2 ^ 52) = 2714222989709897 / 2 ^ 48"
  by (rule fl_eval [where e = 3 and m = 5428445979419794, THEN trans])
    (simp_all add: pow2_def py_round_def)

lemma cur_16_15_10: "fl Float64 (2714222989709897 / 2 ^ 48 + 4825285315039817 / 2 ^ 52) = 6031606643799771 / 2 ^ 49"
  by (rule fl_eval [where e = 3 and m = 6031606643799771, THEN trans])
    (simp_all add: pow2_def py_round_def)

lemma cur_16_15_11: "fl Float64 (6031606643799771 / 2 ^ 49 + 4825285315039817 / 2 ^ 52) = 1658691827044937 / 2 ^ 47"
  by (rule fl_eval [where e = 3 and m = 6634767308179748, THEN trans])
    (simp_all add: pow2_def py_round_def)

lemma cur_16_15_12: "fl Float64 (1658691827044937 / 2 ^ 47 + 4825285315039817 / 2 ^ 52) = 7237927972559725 / 2 ^ 49"
  by (rule fl_eval [where e = 3 and m = 7237927972559725, THEN trans])
    (simp_all add: pow2_def py_round_def)

lemma cur_16_15_13: "fl Float64 (7237927972559725 / 2 ^ 49 + 4825285315039817 / 2 ^ 52) = 3920544318469851 / 2 ^ 48"
  by (rule fl_eval [where e = 3 and m = 7841088636939702, THEN trans])
    (simp_all add: pow2_def py_round_def)

lemma cur_16_15_14: "fl Float64 (3920544318469851 / 2 ^ 48 + 4825285315039817 / 2 ^ 52) = 8444249301319679 / 2 ^ 49"
  by (rule fl_eval [where e = 3 and m = 8444249301319679, THEN trans])
    (simp_all add: pow2_def py_round_def)

text \<open>
  Fifteen steps from a section of sixteen. The float stride is the binary64 number nearest to
  \<open>15 / 14\<close>, a little below it, and after seven additions the running index is
  \<open>7.499999999999999\<close>, below the tie \<open>7.5\<close> that exact arithmetic gives: the eighth index is
  7, not 8. The last running index is \<open>14.999999999999998\<close>.
\<close>

lemma space_timesteps_16_15:
  "space_timesteps 16 (Counts [15]) = Inr {0, 1, 2, 3, 4, 5, 6, 7, 9, 10, 11, 12, 13, 14, 15}"
proof -
  have d: "py_truediv 15 14 = Inr (4825285315039817 / 2 ^ 52)"
    using fl_finite_eval [OF stride_16_15] by (simp add: py_truediv_def)
  note st = fl_finite_eval [OF cur_16_15_1] fl_finite_eval [OF cur_16_15_2] fl_finite_eval [OF cur_16_15_3] fl_finite_eval [OF cur_16_15_4] fl_finite_eval [OF cur_16_15_5] fl_finite_eval [OF cur_16_15_6] fl_finite_eval [OF cur_16_15_7] fl_finite_eval [OF cur_16_15_8] fl_finite_eval [OF cur_16_15_9] fl_finite_eval [OF cur_16_15_10] fl_finite_eval [OF cur_16_15_11] fl_finite_eval [OF cur_16_15_12] fl_finite_eval [OF cur_16_15_13] fl_finite_eval [OF cur_16_15_14]
  have t: "take_steps 0 (4825285315039817 / 2 ^ 52) (Some 0) 15 =
      Inr [0, 1, 2, 3, 4, 5, 6, 7, 9, 10, 11, 12, 13, 14, 15]"
    using st by (simp add: eval_nat_numeral py_round_def)
  show ?thesis
    using d t by (simp add: space_timesteps_def Let_def) 
qed

subsection \<open>The derived schedule\<close>

lemma spaced_loop_eq:
  "spaced_loop use xs st =
     \<lparr> last_alpha_cumprod = last (last_alpha_cumprod st # map snd (filter (\<lambda>p. int (fst p) \<in> use) xs)),
       new_betas = new_betas st @
         betas_from (last_alpha_cumprod st) (map snd (filter (\<lambda>p. int (fst p) \<in> use) xs)),
       timestep_map = timestep_map st @ map fst (filter (\<lambda>p. int (fst p) \<in> use) xs) \<rparr>"
  by (induction use xs st rule: spaced_loop.induct) auto

lemma cumprod_from_length: "length (cumprod_from p xs) = length xs"
  by (induction xs arbitrary: p) auto

lemma betas_from_length: "length (betas_from l as) = length as"
  by (induction as arbitrary: l) auto

lemma betas_from_nth:
  "k < length as \<Longrightarrow> betas_from l as ! k = np_rsub 1 (np_div (as ! k) (if k = 0 then l else as ! (k - 1)))"
proof (induction as arbitrary: l k)
  case Nil
  then show ?case by simp
next
  case (Cons a as)
  then show ?case by (cases k) (auto simp: nth_Cons')
qed

lemma cumprod_roundtrip:
  "l \<noteq> 0 \<Longrightarrow> k < length as \<Longrightarrow> (\<And>j. j < k \<Longrightarrow> as ! j \<noteq> 0) \<Longrightarrow>
   cumprod_from (Some l) (map (np_rsub 1) (betas_from l as)) ! k = Some (as ! k)"
proof (induction as arbitrary: l k)
  case Nil
  then show ?case by simp
next
  case (Cons a as)
  have step: "np_mul (Some l) (np_rsub 1 (np_rsub 1 (np_div a l))) = Some a"
    using Cons.prems(1) by (simp add: np_mul_def np_rsub_def np_div_def)
  show ?case
  proof (cases k)
    case 0
    then show ?thesis using step by simp
  next
    case (Suc k')
    have a0: "a \<noteq> 0" using Cons.prems(3) [of 0] Suc by simp
    have rest: "\<And>j. j < k' \<Longrightarrow> as ! j \<noteq> 0"
      using Cons.prems(3) [of "Suc _"] Suc by simp
    have "cumprod_from (Some a) (map (np_rsub 1) (betas_from a as)) ! k' = Some (as ! k')"
      using Cons.prems(2) Suc a0 rest by (intro Cons.IH) auto
    then show ?thesis using step Suc by simp
  qed
qed

lemma retained_enumerate:
  "map fst (filter (\<lambda>p. int (fst p) \<in> use) (enumerate 0 ac)) = filter (\<lambda>i. int i \<in> use) [0..<length ac]"
  "map snd (filter (\<lambda>p. int (fst p) \<in> use) (enumerate 0 ac)) = map (\<lambda>i. ac ! i) (filter (\<lambda>i. int i \<in> use) [0..<length ac])"
proof -
  have e: "enumerate 0 ac = map (\<lambda>i. (i, ac ! i)) [0..<length ac]"
    by (rule nth_equalityI) (auto simp: nth_enumerate_eq)
  show "map fst (filter (\<lambda>p. int (fst p) \<in> use) (enumerate 0 ac)) = filter (\<lambda>i. int i \<in> use) [0..<length ac]"
    by (simp add: e filter_map comp_def)
  show "map snd (filter (\<lambda>p. int (fst p) \<in> use) (enumerate 0 ac)) = map (\<lambda>i. ac ! i) (filter (\<lambda>i. int i \<in> use) [0..<length ac])"
    by (simp add: e filter_map comp_def)
qed

text \<open>
  Claim C2 (as amended). \<open>timestep_map\<close> is the increasing enumeration of the retained
  indices that the original schedule has; there is one new increment per retained index, and
  it is \<open>1 - alphas_cumprod[i] / alphas_cumprod[last retained]\<close> (the divisor being 1 for the
  first). At every position \<open>k\<close> such that the cumulative fractions at the retained indices
  before it are all non-zero, the running product of \<open>1 - increment\<close> up to \<open>k\<close> is exactly
  \<open>alphas_cumprod[timestep_map[k]]\<close>.
\<close>

theorem spaced_init_round_trip:
  "timestep_map (spaced_init use ac) = filter (\<lambda>i. int i \<in> use) [0..<length ac] \<and>
   length (new_betas (spaced_init use ac)) = length (timestep_map (spaced_init use ac)) \<and>
   (\<forall>k<length (timestep_map (spaced_init use ac)).
      new_betas (spaced_init use ac) ! k =
        np_rsub 1 (np_div (ac ! (timestep_map (spaced_init use ac) ! k))
          (if k = 0 then 1 else ac ! (timestep_map (spaced_init use ac) ! (k - 1)))) \<and>
      ((\<forall>j<k. ac ! (timestep_map (spaced_init use ac) ! j) \<noteq> 0) \<longrightarrow>
         derived_alphas_cumprod (new_betas (spaced_init use ac)) ! k =
           Some (ac ! (timestep_map (spaced_init use ac) ! k))))"
proof -
  define tm where "tm = filter (\<lambda>i. int i \<in> use) [0..<length ac]"
  define as where "as = map (\<lambda>i. ac ! i) tm"
  have st: "spaced_init use ac =
      \<lparr> last_alpha_cumprod = last (1 # as), new_betas = betas_from 1 as, timestep_map = tm \<rparr>"
    by (simp add: spaced_init_def spaced_loop_eq retained_enumerate tm_def as_def)
  have len: "length as = length tm" by (simp add: as_def)
  have nth: "\<And>k. k < length tm \<Longrightarrow> as ! k = ac ! (tm ! k)" by (simp add: as_def)
  have inc: "new_betas (spaced_init use ac) ! k =
        np_rsub 1 (np_div (ac ! (tm ! k)) (if k = 0 then 1 else ac ! (tm ! (k - 1))))"
    if "k < length tm" for k
  proof -
    have "k - 1 < length tm" using that by simp
    then show ?thesis
      using that betas_from_nth [of k as 1] by (simp add: st len nth)
  qed
  have rt: "derived_alphas_cumprod (new_betas (spaced_init use ac)) ! k = Some (ac ! (tm ! k))"
    if "k < length tm" and nz: "\<forall>j<k. ac ! (tm ! j) \<noteq> 0" for k
  proof -
    have "\<And>j. j < k \<Longrightarrow> as ! j \<noteq> 0"
      using that by (simp add: nth)
    then have "cumprod_from (Some 1) (map (np_rsub 1) (betas_from 1 as)) ! k = Some (as ! k)"
      using that(1) by (intro cumprod_roundtrip) (auto simp: len)
    then show ?thesis
      using that(1) by (simp add: derived_alphas_cumprod_def st nth)
  qed
  have tmeq: "timestep_map (spaced_init use ac) = tm" by (simp add: st)
  show ?thesis
    unfolding tmeq using inc rt by (simp add: tm_def [symmetric] st betas_from_length len)
qed

lemma spaced_init_example:
  "spaced_init {0, 2, 3, 7} [9 / 10, 4 / 5, 7 / 10, 1 / 2] =
     \<lparr> last_alpha_cumprod = 1 / 2, new_betas = [Some (1 / 10), Some (2 / 9), Some (2 / 7)],
       timestep_map = [0, 2, 3] \<rparr>"
  by (simp add: spaced_init_def enumerate_eq_zip upt_rec np_rsub_def np_div_def)

text \<open>
  Retaining indices 0, 2 and 3 of a four-step schedule (7 is outside it): the third running
  product is the original cumulative fraction at index 3.
\<close>

theorem spaced_init_round_trip_witness:
  "timestep_map (spaced_init {0, 2, 3, 7} [9 / 10, 4 / 5, 7 / 10, 1 / 2]) = [0, 2, 3] \<and>
   derived_alphas_cumprod (new_betas (spaced_init {0, 2, 3, 7} [9 / 10, 4 / 5, 7 / 10, 1 / 2])) ! 2
     = Some (1 / 2)"
proof -
  let ?st = "spaced_init {0, 2, 3, 7} [9 / 10, 4 / 5, 7 / 10, 1 / 2]"
  have tm: "timestep_map ?st = [0, 2, 3]" by (simp add: spaced_init_example)
  have nz: "\<forall>j<2. [9 / 10, 4 / 5, 7 / 10, 1 / 2 :: real] ! (timestep_map ?st ! j) \<noteq> 0"
    by (simp add: tm less_Suc_eq numeral_2_eq_2)
  have k: "(2::nat) < length (timestep_map ?st)" by (simp add: tm)
  from spaced_init_round_trip [of "{0, 2, 3, 7}" "[9 / 10, 4 / 5, 7 / 10, 1 / 2]"]
  have "derived_alphas_cumprod (new_betas ?st) ! 2 =
      Some ([9 / 10, 4 / 5, 7 / 10, 1 / 2] ! (timestep_map ?st ! 2))"
    using k nz by blast
  then show ?thesis by (simp add: tm)
qed

text \<open>
  Without the condition the round trip fails: when the cumulative fraction has reached zero
  at a retained index, the next increment is \<open>1 - 0/0\<close>, not a number, and so is the running
  product from there on, while the original fraction is 0.
\<close>

theorem spaced_init_round_trip_counterexample:
  "timestep_map (spaced_init {0, 1, 2} [1 / 2, 0, 0]) = [0, 1, 2] \<and>
   derived_alphas_cumprod (new_betas (spaced_init {0, 1, 2} [1 / 2, 0, 0])) ! 2 = None \<and>
   derived_alphas_cumprod (new_betas (spaced_init {0, 1, 2} [1 / 2, 0, 0])) ! 2 \<noteq>
     Some ([1 / 2, 0, 0] ! (timestep_map (spaced_init {0, 1, 2} [1 / 2, 0, 0]) ! 2))"
  by (simp add: spaced_init_def enumerate_eq_zip upt_rec np_rsub_def np_div_def np_mul_def
      derived_alphas_cumprod_def)

subsection \<open>Broadcasting\<close>

lemma broadcast_rev_same: "broadcast_rev xs xs = Some xs"
  by (induction xs) auto

lemma src_index_same: "k < prod_list ts \<Longrightarrow> src_index ts ts k = k"
proof (induction ts arbitrary: k)
  case Nil
  then show ?case by simp
next
  case (Cons t ts)
  have tpos: "0 < t" using Cons.prems by (cases t) auto
  have "k div t < prod_list ts"
    using Cons.prems tpos by (simp add: less_mult_imp_div_less mult.commute)
  then have "src_index ts ts (k div t) = k div t" by (rule Cons.IH)
  then show ?case by (cases "t = 1") (simp_all add: mult.commute)
qed

lemma expand_same: "wf_tensor t \<Longrightarrow> expand (shape t) t = vals t"
proof -
  assume wf: "wf_tensor t"
  have p: "prod_list (rev (shape t)) = prod_list (shape t)"
    by (induction "shape t") (simp_all add: mult.commute)
  have "map (\<lambda>k. vals t ! src_index (rev (shape t)) (rev (shape t)) k) [0..<prod_list (shape t)]
      = map (\<lambda>k. vals t ! k) [0..<prod_list (shape t)]"
    by (rule map_cong) (simp_all add: src_index_same p)
  also have "\<dots> = vals t"
    using wf map_nth [of "vals t"] by (simp add: wf_tensor_def)
  finally show ?thesis by (simp add: expand_def)
qed

lemma tbinop_same_shape:
  "wf_tensor a \<Longrightarrow> wf_tensor b \<Longrightarrow> shape a = shape b \<Longrightarrow>
   tbinop f a b = Inr \<lparr> shape = shape a, vals = map2 f (vals a) (vals b) \<rparr>"
  using expand_same [of a] expand_same [of b]
  by (simp add: tbinop_def broadcast_shapes_def broadcast_rev_same)

lemma src_index_source_one: "src_index ts (ss @ [1]) k = src_index ts ss k"
proof (induction ts ss k rule: src_index.induct)
  case (1 ts k)
  then show ?case by (cases ts) simp_all
next
  case (2 s ss k)
  then show ?case by simp
next
  case (3 t ts s ss k)
  then show ?case by simp
qed

lemma src_index_nil: "src_index [] ss k = 0"
  by (cases ss) simp_all

lemma src_index_target_one: "src_index (ts @ [1]) ss k = src_index ts ss k"
proof (induction ts ss k rule: src_index.induct)
  case (1 ts k)
  then show ?case by simp
next
  case (2 s ss k)
  then show ?case by (simp add: src_index_nil)
next
  case (3 t ts s ss k)
  then show ?case by simp
qed

lemma expand_unsqueeze0: "expand s (unsqueeze0 a) = expand s a"
  by (simp add: expand_def unsqueeze0_def src_index_source_one [unfolded One_nat_def])

lemma expand_leading_one: "expand (1 # s) a = expand s a"
  by (simp add: expand_def src_index_target_one [unfolded One_nat_def])

lemma broadcast_rev_source_one:
  "broadcast_rev xs (ys @ [1]) = Some r \<Longrightarrow>
   \<exists>r'. broadcast_rev xs ys = Some r' \<and> (r = r' \<or> r = r' @ [1])"
proof (induction xs ys arbitrary: r rule: broadcast_rev.induct)
  case (1 ys)
  then show ?case by auto
next
  case (2 x xs)
  then show ?case by (cases xs) (auto split: if_splits)
next
  case (3 x xs y ys)
  then show ?case by (auto split: if_splits)
qed

lemma broadcast_shapes_unsqueeze0:
  "broadcast_shapes a (1 # b) = Some s \<Longrightarrow>
   \<exists>s'. broadcast_shapes a b = Some s' \<and> (s = s' \<or> s = 1 # s')"
proof -
  assume "broadcast_shapes a (1 # b) = Some s"
  then obtain r where r: "broadcast_rev (rev a) (rev b @ [1]) = Some r" "s = rev r"
    by (auto simp: broadcast_shapes_def)
  from broadcast_rev_source_one [OF r(1)]
  obtain r' where "broadcast_rev (rev a) (rev b) = Some r'" "r = r' \<or> r = r' @ [1]" by blast
  then show ?thesis using r(2) by (auto simp: broadcast_shapes_def)
qed

subsection \<open>Measurement losses\<close>

lemma PoissonMseLoss_rejects:
  "shape x \<noteq> shape y \<Longrightarrow> apply_loss PoissonMseLoss x y = Inl AssertionError"
  by (simp add: PoissonMseLoss_forward_def)

lemma MSELoss_rejects:
  "broadcast_shapes (shape x) (shape y) = None \<Longrightarrow> apply_loss MSELoss x y = Inl RuntimeError"
  by (simp add: MSELoss_sum_def)

lemma MSELoss_broadcasts:
  "broadcast_shapes (shape x) (shape y) = Some s \<Longrightarrow>
   apply_loss MSELoss x y =
     Inr (sum_list (map2 (\<lambda>a b. (a - b) * (a - b)) (expand s x) (expand s y)))"
  by (simp add: MSELoss_sum_def)

text \<open>
  Claim C7. Both measurement losses are to fail on predicted and observed tensors of
  different shapes. The Poisson loss does, by its assertion. The Gaussian loss does not:
  for a prediction of shape \<open>(1, 2)\<close> with the values 1, 2 and an observation of shape \<open>(2)\<close>
  with the values 0, 0, the shapes differ, the Poisson loss raises \<open>AssertionError\<close>, and the
  Gaussian loss broadcasts the observation and returns the value \<open>1\<^sup>2 + 2\<^sup>2 = 5\<close>.
\<close>

theorem gaussian_loss_accepts_mismatch:
  "shape \<lparr> shape = [1, 2], vals = [1, 2] \<rparr> \<noteq> shape \<lparr> shape = [2], vals = [0, 0] \<rparr> \<and>
   apply_loss PoissonMseLoss \<lparr> shape = [1, 2], vals = [1, 2] \<rparr> \<lparr> shape = [2], vals = [0, 0] \<rparr>
     = Inl AssertionError \<and>
   apply_loss MSELoss \<lparr> shape = [1, 2], vals = [1, 2] \<rparr> \<lparr> shape = [2], vals = [0, 0] \<rparr> = Inr 5"
  by (simp add: PoissonMseLoss_forward_def MSELoss_sum_def broadcast_shapes_def expand_def upt_rec)

subsection \<open>The residual behind a loss\<close>

lemma wf_unsqueeze0: "wf_tensor (unsqueeze0 t) = wf_tensor t"
  by (simp add: wf_tensor_def unsqueeze0_def)

lemma wf_to_4d: "wf_tensor (to_4d t) = wf_tensor t"
  by (simp add: to_4d_def wf_unsqueeze0)

lemma vals_to_4d: "vals (to_4d t) = vals t"
  by (simp add: to_4d_def unsqueeze0_def)

lemma expand_to_4d: "expand s (to_4d t) = expand s t"
  by (simp add: to_4d_def expand_unsqueeze0)

lemma shape_to_4d_cases: "shape (to_4d t) = shape t \<or> shape (to_4d t) = 1 # shape t"
  by (simp add: to_4d_def unsqueeze0_def)

lemma tnorm_abs: "tnorm (tmap abs d) = sqrt (sum_list (map (\<lambda>v. v * v) (vals d)))"
  by (simp add: tnorm_def tmap_def comp_def)

lemma sum_squares_nonneg: "0 \<le> sum_list (map (\<lambda>v::real. v * v) ds)"
  by (induction ds) simp_all

lemma sum_squares_pos: "d \<in> set ds \<Longrightarrow> d \<noteq> 0 \<Longrightarrow> 0 < sum_list (map (\<lambda>v::real. v * v) ds)"
proof (induction ds)
  case Nil
  then show ?case by simp
next
  case (Cons a ds)
  show ?case
  proof (cases "a = 0")
    case True
    then show ?thesis using Cons by auto
  next
    case False
    then have "0 < a * a" by (cases "0 < a") (auto simp: zero_less_mult_iff)
    then show ?thesis using sum_squares_nonneg [of ds] by simp
  qed
qed

lemma broadcast_pair:
  "broadcast_shapes a (shape (to_4d m)) = Some s \<Longrightarrow>
   \<exists>s'. broadcast_shapes a (shape m) = Some s' \<and> (s = s' \<or> s = 1 # s')"
  using shape_to_4d_cases [of m] broadcast_shapes_unsqueeze0 [of a "shape m" s] by auto

lemma mse_residual:
  assumes "MSELoss_sum y (to_4d m) = Inr l"
  shows "\<exists>d. tsub y m = Inr d \<and> l = sum_list (map (\<lambda>v. v * v) (vals d))"
proof -
  from assms obtain s where s: "broadcast_shapes (shape y) (shape (to_4d m)) = Some s"
    and l: "l = sum_list (map2 (\<lambda>a b. (a - b) * (a - b)) (expand s y) (expand s (to_4d m)))"
    by (auto simp: MSELoss_sum_def split: option.splits)
  from broadcast_pair [OF s] obtain s' where s': "broadcast_shapes (shape y) (shape m) = Some s'"
    and ss: "s = s' \<or> s = 1 # s'" by blast
  have e: "expand s y = expand s' y" "expand s (to_4d m) = expand s' m"
    using ss expand_leading_one [of s' y] expand_leading_one [of s' m]
    by (auto simp: expand_to_4d)
  have "tsub y m = Inr \<lparr> shape = s', vals = map2 (-) (expand s' y) (expand s' m) \<rparr>"
    by (simp add: tsub_def tbinop_def s')
  moreover have "l = sum_list (map (\<lambda>v. v * v) (map2 (-) (expand s' y) (expand s' m)))"
    by (simp add: l e map_zip_map split_def comp_def)
  ultimately show ?thesis by simp
qed


lemma broadcast_rev_leading_one: "broadcast_rev (xs @ [1]) xs = Some (xs @ [1])"
  by (induction xs) auto

lemma poisson_residual:
  assumes wf: "wf_tensor y" "wf_tensor m"
    and loss: "PoissonMseLoss_forward y (to_4d m) = Inr l"
  shows "\<exists>d. tsub y m = Inr d \<and> vals d = map2 (-) (vals y) (vals m) \<and>
           l = sum_list (map2 (\<lambda>w d. w * d * d)
                 (map (\<lambda>v. 1 / (2 * max \<bar>v\<bar> (1 / 100))) (vals m)) (vals d))"
proof -
  from loss have sh: "shape y = shape (to_4d m)"
    and l: "l = sum_list (map2 (\<lambda>w d. w * d * d)
                 (map (\<lambda>v. 1 / (2 * max \<bar>v\<bar> (1 / 100))) (vals m))
                 (map2 (\<lambda>a b. a - b) (vals y) (vals m)))"
    by (auto simp: PoissonMseLoss_forward_def Let_def vals_to_4d split: if_splits)
  have "tsub y m = Inr \<lparr> shape = shape y, vals = map2 (-) (vals y) (vals m) \<rparr>"
  proof (cases "shape (to_4d m) = shape m")
    case True
    then show ?thesis using wf sh by (simp add: tsub_def tbinop_same_shape)
  next
    case False
    then have s1: "shape y = 1 # shape m" using sh shape_to_4d_cases [of m] by simp
    have b: "broadcast_shapes (shape y) (shape m) = Some (shape y)"
      using broadcast_rev_leading_one [of "rev (shape m)"]
      by (simp add: broadcast_shapes_def s1)
    have "expand (shape y) m = expand (shape m) m"
      using expand_leading_one [of "shape m" m] by (simp add: s1)
    then have "expand (shape y) m = vals m" using wf(2) by (simp add: expand_same)
    moreover have "expand (shape y) y = vals y" using wf(1) by (simp add: expand_same)
    ultimately show ?thesis by (simp add: tsub_def tbinop_def b)
  qed
  then show ?thesis using l by simp
qed

lemma weighted_nonneg:
  "(\<And>w. w \<in> set ws \<Longrightarrow> 0 \<le> w) \<Longrightarrow> 0 \<le> sum_list (map2 (\<lambda>w d :: real. w * d * d) ws ds)"
proof (induction ws arbitrary: ds)
  case Nil
  then show ?case by simp
next
  case (Cons w ws)
  show ?case
  proof (cases ds)
    case Nil
    then show ?thesis by simp
  next
    case (Cons d ds')
    have "0 \<le> w * (d * d)" using Cons.prems [of w] by simp
    moreover have "0 \<le> sum_list (map2 (\<lambda>w d. w * d * d) ws ds')"
      using Cons.prems by (intro Cons.IH) simp
    ultimately show ?thesis using Cons by (simp add: mult.assoc)
  qed
qed

lemma weighted_zero:
  "(\<And>d. d \<in> set ds \<Longrightarrow> d = 0) \<Longrightarrow> sum_list (map2 (\<lambda>w d :: real. w * d * d) ws ds) = 0"
proof (induction ws arbitrary: ds)
  case Nil
  then show ?case by simp
next
  case (Cons w ws)
  then show ?case by (cases ds) auto
qed

lemma loss_residual:
  assumes wf: "wf_tensor y" "wf_tensor m"
    and loss: "apply_loss lf y (to_4d m) = Inr l"
  shows "0 \<le> l \<and> (\<exists>d. tsub y m = Inr d \<and> (0 < l \<longrightarrow> 0 < tnorm (tmap abs d)))"
proof (cases lf)
  case MSELoss
  with loss obtain d where d: "tsub y m = Inr d" "l = sum_list (map (\<lambda>v. v * v) (vals d))"
    using mse_residual [of y m l] by auto
  have "0 \<le> l" using d(2) sum_squares_nonneg by simp
  moreover have "0 < l \<longrightarrow> 0 < tnorm (tmap abs d)"
    by (simp add: tnorm_abs d(2))
  ultimately show ?thesis using d(1) by blast
next
  case PoissonMseLoss
  let ?ws = "map (\<lambda>v. 1 / (2 * max \<bar>v\<bar> (1 / 100))) (vals m)"
  from PoissonMseLoss loss wf obtain d where d: "tsub y m = Inr d"
    "l = sum_list (map2 (\<lambda>w d. w * d * d) ?ws (vals d))"
    using poisson_residual [of y m l] by auto
  have wpos: "\<And>w. w \<in> set ?ws \<Longrightarrow> 0 \<le> w" by auto
  have "0 \<le> l" unfolding d(2) using wpos by (rule weighted_nonneg)
  moreover have "0 < tnorm (tmap abs d)" if "0 < l"
  proof -
    have "\<exists>v\<in>set (vals d). v \<noteq> 0"
    proof (rule ccontr)
      assume "\<not> (\<exists>v\<in>set (vals d). v \<noteq> 0)"
      then have "l = 0" unfolding d(2) by (intro weighted_zero) auto
      then show False using that by simp
    qed
    then obtain v where "v \<in> set (vals d)" "v \<noteq> 0" by blast
    then have "0 < sum_list (map (\<lambda>v. v * v) (vals d))" by (rule sum_squares_pos)
    then show ?thesis by (simp add: tnorm_abs)
  qed
  ultimately show ?thesis using d(1) by blast
qed

subsection \<open>Sampler construction\<close>

text \<open>
  Claim C8. With a noise-model name other than \<open>"gaussian"\<close> and \<open>"poisson"\<close>, constructing
  either sampler yields no sampler object: the call raises. When the base constructor has
  succeeded, the ancestral sampler's construction ends in \<open>TypeError\<close> (its \<open>__init__\<close>
  returns a value other than \<open>None\<close>) and the multistep sampler's in \<open>NotImplementedError\<close>.
\<close>

theorem invalid_noise_model_fails:
  "nm \<noteq> ''gaussian'' \<and> nm \<noteq> ''poisson'' \<longrightarrow>
     (\<exists>e. DiffusionPosteriorSampling base_init mm y nm s = Inl e) \<and>
     (\<exists>e. DPMDiffusionPosteriorSampling base_init mm y nm s = Inl e) \<and>
     DiffusionPosteriorSampling (Inr ()) mm y nm s = Inl TypeError \<and>
     DPMDiffusionPosteriorSampling (Inr ()) mm y nm s = Inl NotImplementedError"
  by (cases base_init)
    (simp_all add: DiffusionPosteriorSampling_def DiffusionPosteriorSampling_init_def
      DPMDiffusionPosteriorSampling_def DPMDiffusionPosteriorSampling_init_def
      py_construct_def bind_err_def)

text \<open>The name \<open>"laplace"\<close> is refused by both constructors.\<close>

theorem invalid_noise_model_fails_witness:
  "''laplace'' \<noteq> ''gaussian'' \<and> ''laplace'' \<noteq> ''poisson'' \<and>
   DiffusionPosteriorSampling (Inr ()) Inr \<lparr> shape = [1], vals = [0] \<rparr> ''laplace'' 1 = Inl TypeError \<and>
   DPMDiffusionPosteriorSampling (Inr ()) Inr \<lparr> shape = [1], vals = [0] \<rparr> ''laplace'' 1
     = Inl NotImplementedError"
  using invalid_noise_model_fails [of "''laplace''" "Inr ()" Inr "\<lparr> shape = [1], vals = [0] \<rparr>" 1]
  by simp

subsection \<open>The model timestep adapter\<close>

text \<open>
  Claim C9. Wrapping a wrapped model returns that wrapper unchanged, whichever process wraps
  it again, so a double-wrapped model answers every call as the single-wrapped one does; and
  on a plain callable the timesteps are translated through \<open>timestep_map\<close>, and rescaled by
  \<open>1000 / original_num_steps\<close> when rescaling is on, exactly once.
\<close>

theorem wrap_model_idempotent:
  "wrap_model self' (wrap_model self m) = wrap_model self m \<and>
   call_model (wrap_model self' (wrap_model self m)) x ts = call_model (wrap_model self m) x ts \<and>
   call_model (wrap_model self (wrap_model self (Callable f))) x (IntTs is) =
     bind_err (index_tensor (sp_timestep_map self) is) (\<lambda>new_ts.
       if sp_rescale_timesteps self then
         (if sp_original_num_steps self = 0 then Inl ZeroDivisionError
          else f x (FloatTs (map (\<lambda>v. real v * (1000 / real (sp_original_num_steps self))) new_ts)))
       else f x (IntTs (map int new_ts)))"
proof -
  have idem: "wrap_model self' (wrap_model self m) = wrap_model self m"
    by (cases m) (simp_all add: wrap_model_def)
  have once: "call_model (wrap_model self (wrap_model self (Callable f))) x (IntTs is) =
     bind_err (index_tensor (sp_timestep_map self) is) (\<lambda>new_ts.
       if sp_rescale_timesteps self then
         (if sp_original_num_steps self = 0 then Inl ZeroDivisionError
          else f x (FloatTs (map (\<lambda>v. real v * (1000 / real (sp_original_num_steps self))) new_ts)))
       else f x (IntTs (map int new_ts)))"
    by (simp add: wrap_model_def cong: if_cong)
  show ?thesis using idem once by simp
qed

subsection \<open>A step against the gradient, and the blend\<close>


lemma tsub_scaled:
  "wf_tensor x_old \<Longrightarrow> wf_tensor grad \<Longrightarrow> shape grad = shape x_old \<Longrightarrow>
   tsub x_old (smul zeta grad) =
     Inr \<lparr> shape = shape x_old, vals = map2 (\<lambda>a g. a - zeta * g) (vals x_old) (vals grad) \<rparr>"
proof -
  assume h: "wf_tensor x_old" "wf_tensor grad" "shape grad = shape x_old"
  then have "wf_tensor (smul zeta grad)" "shape x_old = shape (smul zeta grad)"
    by (simp_all add: smul_def tmap_def wf_tensor_def)
  then have "tsub x_old (smul zeta grad) =
      Inr \<lparr> shape = shape x_old, vals = map2 (-) (vals x_old) (vals (smul zeta grad)) \<rparr>"
    using h by (simp add: tsub_def tbinop_same_shape)
  then show ?thesis
    by (simp add: smul_def tmap_def zip_map2 split_def)
qed





subsection \<open>The blend in floating point\<close>


























subsection \<open>The posterior gradient step\<close>

lemma sqrt_25: "sqrt 25 = 5"
proof -
  have "sqrt ((5::real)\<^sup>2) = \<bar>5\<bar>" by (rule real_sqrt_abs)
  then show ?thesis by simp
qed

text \<open>
  Claim C1. Let the measurement operator return a prediction and the measurement loss of
  the prediction and the observation (both made four-dimensional) be \<open>l\<close>. Then \<open>l\<close> is not
  negative; if \<open>l\<close> is positive, the residual between prediction and observation exists, its
  norm is positive, and \<open>dps_update\<close> returns \<open>x_old - zeta * grad\<close> with \<open>zeta\<close> the base step
  size divided by that norm; if \<open>l\<close> is zero, it returns \<open>x_old - step_size * grad\<close> and no
  division takes place. For a gradient of the shape of \<open>x_old\<close> the difference is elementwise.
\<close>

theorem dps_update_step:
  "(wf_tensor (measurement self) \<and> measurement_model self x0 = Inr y0 \<and> wf_tensor y0 \<and>
    apply_loss (measurement_loss self) (to_4d y0) (to_4d (measurement self)) = Inr l \<longrightarrow>
      0 \<le> l \<and>
      (\<exists>d. tsub (to_4d y0) (measurement self) = Inr d \<and>
         (0 < l \<longrightarrow> 0 < tnorm (tmap abs d) \<and>
            dps_update self grad x0 x_old =
              tsub x_old (smul (step_size self / tnorm (tmap abs d)) grad))) \<and>
      (l = 0 \<longrightarrow> dps_update self grad x0 x_old = tsub x_old (smul (step_size self) grad))) \<and>
   (wf_tensor x_old \<and> wf_tensor grad \<and> shape grad = shape x_old \<longrightarrow>
      tsub x_old (smul zeta grad) =
        Inr \<lparr> shape = shape x_old, vals = map2 (\<lambda>a g. a - zeta * g) (vals x_old) (vals grad) \<rparr>)"
proof (intro conjI impI)
  assume h: "wf_tensor (measurement self) \<and> measurement_model self x0 = Inr y0 \<and> wf_tensor y0 \<and>
    apply_loss (measurement_loss self) (to_4d y0) (to_4d (measurement self)) = Inr l"
  then have wf: "wf_tensor (to_4d y0)" "wf_tensor (measurement self)"
    by (simp_all add: wf_to_4d)
  from loss_residual [OF wf] h obtain d where
    l0: "0 \<le> l" and d: "tsub (to_4d y0) (measurement self) = Inr d"
    and n: "0 < l \<longrightarrow> 0 < tnorm (tmap abs d)"
    by blast
  show "0 \<le> l" by (rule l0)
  have pos: "dps_update self grad x0 x_old =
      tsub x_old (smul (step_size self / tnorm (tmap abs d)) grad)" if "0 < l"
    using h d that by (simp add: dps_update_def Let_def bind_err_def)
  show "\<exists>d. tsub (to_4d y0) (measurement self) = Inr d \<and>
         (0 < l \<longrightarrow> 0 < tnorm (tmap abs d) \<and>
            dps_update self grad x0 x_old =
              tsub x_old (smul (step_size self / tnorm (tmap abs d)) grad))"
    using d n pos by blast
  show "dps_update self grad x0 x_old = tsub x_old (smul (step_size self) grad)" if "l = 0"
    using h that by (simp add: dps_update_def Let_def bind_err_def)
next
  assume "wf_tensor x_old \<and> wf_tensor grad \<and> shape grad = shape x_old"
  then show "tsub x_old (smul zeta grad) =
        Inr \<lparr> shape = shape x_old, vals = map2 (\<lambda>a g. a - zeta * g) (vals x_old) (vals grad) \<rparr>"
    by (simp add: tsub_scaled)
qed

text \<open>
  With the identity as measurement operator, a zero observation, step size 2 and the Gaussian
  loss: the prediction \<open>(3, 4)\<close> has loss 25 and residual norm 5, so the step is
  \<open>2/5\<close> of the gradient; the prediction \<open>(0, 0)\<close> has loss 0 and the step is \<open>2\<close> times the
  gradient.
\<close>

theorem dps_update_step_witness:
  "dps_update
     \<lparr> measurement_model = Inr, measurement = \<lparr> shape = [1, 1, 1, 2], vals = [0, 0] \<rparr>,
       noise_model = ''gaussian'', step_size = 2, measurement_loss = MSELoss \<rparr>
     \<lparr> shape = [1, 1, 1, 2], vals = [5, 10] \<rparr> \<lparr> shape = [1, 1, 1, 2], vals = [3, 4] \<rparr>
     \<lparr> shape = [1, 1, 1, 2], vals = [5, 5] \<rparr>
   = Inr \<lparr> shape = [1, 1, 1, 2], vals = [3, 1] \<rparr> \<and>
   dps_update
     \<lparr> measurement_model = Inr, measurement = \<lparr> shape = [1, 1, 1, 2], vals = [0, 0] \<rparr>,
       noise_model = ''gaussian'', step_size = 2, measurement_loss = MSELoss \<rparr>
     \<lparr> shape = [1, 1, 1, 2], vals = [5, 10] \<rparr> \<lparr> shape = [1, 1, 1, 2], vals = [0, 0] \<rparr>
     \<lparr> shape = [1, 1, 1, 2], vals = [5, 5] \<rparr>
   = Inr \<lparr> shape = [1, 1, 1, 2], vals = [- 5, - 15] \<rparr>"
proof -
  let ?self = "\<lparr> measurement_model = Inr, measurement = \<lparr> shape = [1, 1, 1, 2], vals = [0, 0] \<rparr>,
       noise_model = ''gaussian'', step_size = 2, measurement_loss = MSELoss \<rparr>"
  let ?grad = "\<lparr> shape = [1, 1, 1, 2], vals = [5, 10] \<rparr>"
  let ?x_old = "\<lparr> shape = [1, 1, 1, 2], vals = [5, 5] \<rparr>"
  let ?a = "\<lparr> shape = [1, 1, 1, 2], vals = [3, 4] \<rparr>"
  let ?b = "\<lparr> shape = [1, 1, 1, 2], vals = [0, 0] \<rparr>"
  have ha: "wf_tensor (measurement ?self) \<and> measurement_model ?self ?a = Inr ?a \<and> wf_tensor ?a \<and>
      apply_loss (measurement_loss ?self) (to_4d ?a) (to_4d (measurement ?self)) = Inr 25"
    by (simp add: wf_tensor_def to_4d_def MSELoss_sum_def broadcast_shapes_def expand_def upt_rec)
  have hb: "wf_tensor (measurement ?self) \<and> measurement_model ?self ?b = Inr ?b \<and> wf_tensor ?b \<and>
      apply_loss (measurement_loss ?self) (to_4d ?b) (to_4d (measurement ?self)) = Inr 0"
    by (simp add: wf_tensor_def to_4d_def MSELoss_sum_def broadcast_shapes_def expand_def upt_rec)
  have hs: "wf_tensor ?x_old \<and> wf_tensor ?grad \<and> shape ?grad = shape ?x_old"
    by (simp add: wf_tensor_def)
  have res: "tsub (to_4d ?a) (measurement ?self) = Inr ?a"
    by (simp add: to_4d_def tsub_def tbinop_def broadcast_shapes_def expand_def upt_rec)
  have n: "tnorm (tmap abs ?a) = 5"
    by (simp add: tnorm_def tmap_def sqrt_25)
  from dps_update_step [of ?self ?a ?a 25 ?grad ?x_old "2 / 5"] ha hs res n
  have 1: "dps_update ?self ?grad ?a ?x_old = Inr \<lparr> shape = [1, 1, 1, 2], vals = [3, 1] \<rparr>"
    by simp
  from dps_update_step [of ?self ?b ?b 0 ?grad ?x_old 2] hb hs
  have 2: "dps_update ?self ?grad ?b ?x_old = Inr \<lparr> shape = [1, 1, 1, 2], vals = [- 5, - 15] \<rparr>"
    by simp
  show ?thesis using 1 2 by simp
qed

subsection \<open>The multistep-solver update\<close>





subsection \<open>The ancestral sampler\<close>






















subsection \<open>Box inpainting writes into its argument\<close>

lemma flat_less:
  fixes x m y n :: nat
  assumes "x < m" "y < n"
  shows "x * n + y < m * n"
proof -
  note assms
  then have "x * n + y < x * n + n" "Suc x \<le> m" by simp_all
  then have "x * n + y < Suc x * n" "Suc x * n \<le> m * n" by (simp_all only: mult_le_mono1) simp
  then show ?thesis by linarith
qed

lemma flat_index_4d:
  fixes b c h w bi ci i j :: nat
  assumes "bi < b" "ci < c" "i < h" "j < w"
  shows "((bi * c + ci) * h + i) * w + j < b * c * h * w"
    and "((((bi * c + ci) * h + i) * w + j) div w) mod h = i"
    and "(((bi * c + ci) * h + i) * w + j) mod w = j"
proof -
  have 1: "bi * c + ci < b * c" by (rule flat_less [OF assms(1,2)])
  have 2: "(bi * c + ci) * h + i < b * c * h" by (rule flat_less [OF 1 assms(3)])
  show "((bi * c + ci) * h + i) * w + j < b * c * h * w" by (rule flat_less [OF 2 assms(4)])
  show "((((bi * c + ci) * h + i) * w + j) div w) mod h = i"
    using assms(3,4) by simp
  show "(((bi * c + ci) * h + i) * w + j) mod w = j"
    using assms(4) by simp
qed

lemma in_box_4d:
  assumes "bi < b" "ci < c" "i < h" "j < w"
  shows "in_box [b, c, h, w] a bh e bw (((bi * c + ci) * h + i) * w + j) =
           (a \<le> i \<and> i < a + bh \<and> e \<le> j \<and> j < e + bw)"
  using flat_index_4d(2,3) [OF assms] by (simp add: in_box_def Let_def numeral_2_eq_2 numeral_3_eq_3)

lemma box_call_full:
  assumes bx: "box self [b, c, h, w] r1 r2 = Inr self'"
    and full: "box_h self' = 128" "box_w self' = 128" "x1 self' + 128 \<le> h" "x2 self' + 128 \<le> w"
    and sh: "ref_shape t = [b, c, h, w]"
    and gr: "\<not> (ge \<and> grad_leaf t)"
  shows "BoxInpainting_call self ge st t r1 r2 =
     (self',
      Inr (if b = 1 then t\<lparr> ref_shape := [c, h, w] \<rparr> else t,
           st(storage t :=
             map (\<lambda>k. if in_box [b, c, h, w] (x1 self') 128 (x2 self') 128 k
                       then st (storage t) ! k * 0 else st (storage t) ! k)
               [0..<length (st (storage t))])))"
proof -
  have sl: "slice_len (x1 self') (x1 self' + 128) h = 128" "slice_len (x2 self') (x2 self' + 128) w = 128"
    using full(3,4) by (simp_all add: slice_len_def)
  have bs: "broadcast_shapes [b, c, 128, 128] [b, c, 128, 128] = Some [b, c, 128, 128]"
    by (simp add: broadcast_shapes_def)
  show ?thesis
    using bx gr by (simp add: BoxInpainting_call_def Let_def sh full(1,2) sl bs)
qed

lemma box_call_3d:
  "ref_shape t = [c, h, w] \<Longrightarrow>
   BoxInpainting_call self ge st t r1 r2 =
     BoxInpainting_call self ge st (t\<lparr> ref_shape := [1, c, h, w] \<rparr>) r1 r2"
  by (simp add: BoxInpainting_call_def)

lemma box_fresh:
  "\<not> box_values self \<Longrightarrow> 128 \<le> h \<Longrightarrow> 128 \<le> w \<Longrightarrow>
   \<exists>self'. box self [b, c, h, w] r1 r2 = Inr self' \<and> box_h self' = 128 \<and> box_w self' = 128 \<and>
     x1 self' + 128 \<le> h \<and> x2 self' + 128 \<le> w"
proof -
  assume a: "\<not> box_values self" "128 \<le> h" "128 \<le> w"
  have m: "r mod max 1 (n - 128) + 128 \<le> n" if "128 \<le> n" for r n :: nat
  proof (cases "n = 128")
    case True
    then show ?thesis by simp
  next
    case False
    then have "0 < n - 128" using that by simp
    then have lt: "r mod (n - 128) < n - 128" by simp
    have mx: "max 1 (n - 128) = n - 128" using \<open>0 < n - 128\<close> by simp
    show ?thesis unfolding mx using lt that by linarith
  qed
  show ?thesis
    using a m [of h r1] m [of w r2] by (simp add: box_def Let_def)
qed

text \<open>
  When the box is a full 128 by 128 region inside the last two dimensions of the input, and
  the input is not a leaf that requires a gradient under gradient recording, the call writes
  into the storage of the caller's own tensor, for a four-dimensional input and for a
  three-dimensional one: the elements inside the box become 0, all other elements and all
  other storages are left as they were, and the returned tensor is on the caller's storage.
\<close>

lemma box_call_in_place:
  assumes shp: "ref_shape t = [b, c, h, w] \<or> (b = 1 \<and> ref_shape t = [c, h, w])"
    and len: "length (st (storage t)) = b * c * h * w"
    and bx: "box self [b, c, h, w] ra rb = Inr self'"
    and full: "box_h self' = 128" "box_w self' = 128" "x1 self' + 128 \<le> h" "x2 self' + 128 \<le> w"
    and gr: "\<not> (ge \<and> grad_leaf t)"
  shows "\<exists>res st'. BoxInpainting_call self ge st t ra rb = (self', Inr (res, st')) \<and>
         storage res = storage t \<and> (\<forall>a. a \<noteq> storage t \<longrightarrow> st' a = st a) \<and>
         length (st' (storage t)) = b * c * h * w \<and>
         (\<forall>bi<b. \<forall>ci<c. \<forall>i<h. \<forall>j<w.
            st' (storage t) ! (((bi * c + ci) * h + i) * w + j) =
              (if x1 self' \<le> i \<and> i < x1 self' + 128 \<and> x2 self' \<le> j \<and> j < x2 self' + 128
               then 0 else st (storage t) ! (((bi * c + ci) * h + i) * w + j)))"
proof -
  define t4 where "t4 = t\<lparr> ref_shape := [b, c, h, w] \<rparr>"
  define new where "new = map (\<lambda>k. if in_box [b, c, h, w] (x1 self') 128 (x2 self') 128 k
                       then st (storage t) ! k * 0 else st (storage t) ! k)
               [0..<length (st (storage t))]"
  define res where "res = (if b = 1 then t4\<lparr> ref_shape := [c, h, w] \<rparr> else t4)"
  have same: "BoxInpainting_call self ge st t ra rb = BoxInpainting_call self ge st t4 ra rb"
  proof (cases "ref_shape t = [b, c, h, w]")
    case True
    then have "t4 = t" unfolding t4_def by (cases t) simp
    then show ?thesis by simp
  next
    case False
    then have "b = 1" "ref_shape t = [c, h, w]" using shp by auto
    then show ?thesis using box_call_3d [of t c h w self ge st ra rb] by (simp add: t4_def)
  qed
  have st4: "storage t4 = storage t" "ref_shape t4 = [b, c, h, w]" "grad_leaf t4 = grad_leaf t"
    by (simp_all add: t4_def)
  have gr4: "\<not> (ge \<and> grad_leaf t4)" using gr by (simp add: st4)
  have "BoxInpainting_call self ge st t4 ra rb = (self', Inr (res, st(storage t := new)))"
    using box_call_full [OF bx full st4(2) gr4, of st]
    by (simp add: st4 new_def res_def cong: if_cong)
  then have call: "BoxInpainting_call self ge st t ra rb = (self', Inr (res, st(storage t := new)))"
    using same by simp
  have ln: "length new = b * c * h * w" using len by (simp add: new_def)
  have elems: "new ! (((bi * c + ci) * h + i) * w + j) =
      (if x1 self' \<le> i \<and> i < x1 self' + 128 \<and> x2 self' \<le> j \<and> j < x2 self' + 128
       then 0 else st (storage t) ! (((bi * c + ci) * h + i) * w + j))"
    if "bi < b" "ci < c" "i < h" "j < w" for bi ci i j
  proof -
    have "((bi * c + ci) * h + i) * w + j < length (st (storage t))"
      using flat_index_4d(1) [OF that] len by simp
    then show ?thesis
      by (simp add: new_def in_box_4d [OF that])
  qed
  have "storage res = storage t" by (simp add: res_def st4)
  then show ?thesis
    using call ln elems
    by (intro exI [of _ res] exI [of _ "st(storage t := new)"]) simp
qed

text \<open>
  A fresh operator draws its box at its first call. On an input whose height or width is
  below 128 the box has that height or width, the 128 by 128 mask does not broadcast to the
  slice, and the call raises.
\<close>

lemma slice_len_le: "slice_len lo hi n \<le> n"
  by (simp add: slice_len_def)

lemma mask_broadcast:
  "broadcast_shapes [b, c, p, q] [b, c, 128, 128] = Some [b, c, p, q] \<Longrightarrow> p = 128 \<and> q = 128"
  by (simp add: broadcast_shapes_def split: if_splits)

lemma box_call_small:
  assumes fresh: "\<not> box_values self" and sh: "ref_shape t = [b, c, h, w]"
    and small: "h < 128 \<or> w < 128"
  shows "snd (BoxInpainting_call self ge st t r1 r2) = Inl RuntimeError"
proof -
  obtain self' where bx: "box self [b, c, h, w] r1 r2 = Inr self'"
    using fresh by (simp add: box_def Let_def)
  define p where "p = slice_len (x1 self') (x1 self' + box_h self') h"
  define q where "q = slice_len (x2 self') (x2 self' + box_w self') w"
  have "p \<le> h" "q \<le> w" by (simp_all add: p_def q_def slice_len_le)
  then have "p \<noteq> 128 \<or> q \<noteq> 128" using small by linarith
  then have nb: "broadcast_shapes [b, c, p, q] [b, c, 128, 128] \<noteq> Some [b, c, p, q]"
    using mask_broadcast [of b c p q] by blast
  have "BoxInpainting_call self ge st t r1 r2 = (self', Inl RuntimeError)"
    unfolding BoxInpainting_call_def Let_def
    using bx nb by (simp add: sh p_def q_def)
  then show ?thesis by simp
qed

text \<open>
  Claim C10. The call is to zero the box region of the caller's tensor for every
  four-dimensional input. A fresh operator called on a 1 by 1 by 2 by 2 tensor, which
  requires no gradient, takes a 2 by 2 box; the mask is 128 by 128 whatever the box, it does
  not broadcast to the 2 by 2 slice, and the call raises \<open>RuntimeError\<close>: no element is
  zeroed.
\<close>

theorem box_inpainting_small_input_raises:
  "BoxInpainting_call \<lparr> x1 = 0, x2 = 0, box_h = 0, box_w = 0, box_values = False \<rparr> ge
     (\<lambda>a. [1, 2, 3, 4]) \<lparr> storage = 0, ref_shape = [1, 1, 2, 2], grad_leaf = False \<rparr> 0 0 =
   (\<lparr> x1 = 0, x2 = 0, box_h = 2, box_w = 2, box_values = True \<rparr>, Inl RuntimeError)"
  by (simp add: BoxInpainting_call_def box_def Let_def slice_len_def broadcast_shapes_def)

text \<open>
  On a 1 by 1 by 128 by 128 tensor of ones a fresh operator takes the whole image as its box.
  The first element of the caller's storage is 0 after the call when the tensor is not a leaf
  that requires a gradient; when it is one and gradients are recorded, the call raises.
\<close>

lemma box_call_examples:
  "(\<exists>res st'. BoxInpainting_call \<lparr> x1 = 0, x2 = 0, box_h = 0, box_w = 0, box_values = False \<rparr> True
       (\<lambda>a. replicate 16384 1) \<lparr> storage = 0, ref_shape = [1, 1, 128, 128], grad_leaf = False \<rparr> 0 0 =
       (\<lparr> x1 = 0, x2 = 0, box_h = 128, box_w = 128, box_values = True \<rparr>, Inr (res, st')) \<and>
       storage res = 0 \<and> st' 0 ! 0 = 0)"
  "BoxInpainting_call \<lparr> x1 = 0, x2 = 0, box_h = 0, box_w = 0, box_values = False \<rparr> True
       (\<lambda>a. replicate 16384 1) \<lparr> storage = 0, ref_shape = [1, 1, 128, 128], grad_leaf = True \<rparr> 0 0 =
       (\<lparr> x1 = 0, x2 = 0, box_h = 128, box_w = 128, box_values = True \<rparr>, Inl RuntimeError)"
proof -
  let ?fresh = "\<lparr> x1 = 0, x2 = 0, box_h = 0, box_w = 0, box_values = False \<rparr>"
  let ?box = "\<lparr> x1 = 0, x2 = 0, box_h = 128, box_w = 128, box_values = True \<rparr>"
  let ?st = "\<lambda>a :: addr. replicate 16384 (1 :: real)"
  let ?t = "\<lparr> storage = 0, ref_shape = [1, 1, 128, 128], grad_leaf = False \<rparr>"
  have bx: "box ?fresh [1, 1, 128, 128] 0 0 = Inr ?box"
    by (simp add: box_def)
  have "ref_shape ?t = [1, 1, 128, 128] \<or> ((1 :: nat) = 1 \<and> ref_shape ?t = [1, 128, 128])"
    "length (?st (storage ?t)) = 1 * 1 * 128 * 128" "box_h ?box = 128" "box_w ?box = 128"
    "x1 ?box + 128 \<le> 128" "x2 ?box + 128 \<le> 128" "\<not> (True \<and> grad_leaf ?t)"
    by simp_all
  from box_call_in_place [OF this(1,2) bx this(3-7)] obtain res st' where
    r: "BoxInpainting_call ?fresh True ?st ?t 0 0 = (?box, Inr (res, st'))" "storage res = storage ?t"
    and z: "\<forall>bi<1. \<forall>ci<1. \<forall>i<128. \<forall>j<128.
            st' (storage ?t) ! (((bi * 1 + ci) * 128 + i) * 128 + j) =
              (if x1 ?box \<le> i \<and> i < x1 ?box + 128 \<and> x2 ?box \<le> j \<and> j < x2 ?box + 128
               then 0 else ?st (storage ?t) ! (((bi * 1 + ci) * 128 + i) * 128 + j))"
    by (elim exE conjE) (rule that, assumption+)
  have "st' (storage ?t) ! (((0 * 1 + 0) * 128 + 0) * 128 + 0) = 0"
    using z [rule_format, of 0 0 0 0] by simp
  then have z0: "st' 0 ! 0 = 0" by simp
  show "\<exists>res st'. BoxInpainting_call ?fresh True ?st ?t 0 0 = (?box, Inr (res, st')) \<and>
       storage res = 0 \<and> st' 0 ! 0 = 0"
    using r z0 by auto
  show "BoxInpainting_call ?fresh True ?st
       \<lparr> storage = 0, ref_shape = [1, 1, 128, 128], grad_leaf = True \<rparr> 0 0 =
       (?box, Inl RuntimeError)"
    by (simp add: BoxInpainting_call_def box_def Let_def)
qed

end
